theory Spec2Isabelle
  imports Main
begin

section \<open>Object utilities of faust (\<^verbatim>\<open>faust/utils/objects.py\<close>)\<close>

subsection \<open>Reverse method resolution order\<close>

text \<open>
  \<^verbatim>\<open>
  def iter_mro_reversed(cls, stop):
      wanted = False
      for subcls in reversed(cls.__mro__):
          if wanted:
              yield cast(Type, subcls)
          else:
              wanted = subcls == stop
  \<close>
  Class objects are values of a type \<open>'c\<close>, compared by identity (\<open>==\<close> on classes).
  The attribute \<open>__mro__\<close> is computed by the interpreter, not by this module, so it is
  a parameter: \<open>mro c\<close> is the tuple \<open>c.__mro__\<close>. The generator is modelled by the list
  of the classes it yields, in the order it yields them.

  \<open>iter_loop wanted xs stop\<close> is the \<open>for\<close> loop, entered with the flag \<open>wanted\<close> and with
  \<open>xs\<close> still to visit.
\<close>

fun iter_loop :: "bool \<Rightarrow> 'c list \<Rightarrow> 'c \<Rightarrow> 'c list" where
  "iter_loop wanted [] stop = []"
| "iter_loop wanted (subcls # rest) stop =
     (if wanted then subcls # iter_loop wanted rest stop
      else iter_loop (subcls = stop) rest stop)"

definition iter_mro_reversed :: "('c \<Rightarrow> 'c list) \<Rightarrow> 'c \<Rightarrow> 'c \<Rightarrow> 'c list" where
  "iter_mro_reversed mro cls stop = iter_loop False (rev (mro cls)) stop"

text \<open>
  The hierarchy of the docstring's example, \<open>class A: ...\<close>, \<open>class B(A): ...\<close>,
  \<open>class C(B): ...\<close>, with classes named by strings and the linearizations Python
  computes for them.
\<close>

fun abc_mro :: "string \<Rightarrow> string list" where
  "abc_mro c =
     (if c = ''C'' then [''C'', ''B'', ''A'', ''object'']
      else if c = ''B'' then [''B'', ''A'', ''object'']
      else if c = ''A'' then [''A'', ''object'']
      else [c])"

subsection \<open>Cached property\<close>

text \<open>
  Python values (references to objects) are elements of a type \<open>'v\<close>. The heap gives every
  object its attribute storage \<open>obj.__dict__\<close>, a dictionary from attribute names to
  values; instances handed to the descriptor are objects that have one.
\<close>

datatype exn = AttributeError | TypeError | Raised string

type_synonym 'v heap = "'v \<Rightarrow> (string \<rightharpoonup> 'v)"

text \<open>
  A user-supplied function object: the attributes \<open>__name__\<close>, \<open>__doc__\<close> and \<open>__module__\<close>
  that the constructor reads, and its behaviour when called. A call takes the positional
  arguments and the heap, may change the heap, and either returns a value or raises;
  what it did to the heap before raising stays done. The record is a function object
  that has the three attributes, as every function defined with \<open>def\<close> has; a callable
  without \<open>__name__\<close> is not in this type.
\<close>

record 'v callable =
  fn_name :: string
  fn_doc :: "string option"
  fn_module :: string
  fn_call :: "'v list \<Rightarrow> 'v heap \<Rightarrow> (exn + 'v) \<times> 'v heap"

text \<open>
  The program state is the heap together with a log of the calls the descriptor has made
  to its three functions: \<open>Compute obj\<close> for \<open>self.__get(obj)\<close>, \<open>Prepare obj value\<close> for
  \<open>self.__set(obj, value)\<close> and \<open>Cleanup obj value\<close> for \<open>self.__del(obj, value)\<close>. The
  log is only ever appended to, at the call sites; the called functions do not see it.
\<close>

datatype 'v hook_call = Compute 'v | Prepare 'v 'v | Cleanup 'v 'v

record 'v state =
  heap :: "'v heap"
  calls :: "'v hook_call list"

text \<open>
  \<^verbatim>\<open>
  def __init__(self, fget=None, fset=None, fdel=None, doc=None, class_attribute=None):
      self.__get = fget
      self.__set = fset
      self.__del = fdel
      self.__doc__ = doc or fget.__doc__
      self.__name__ = fget.__name__
      self.__module__ = fget.__module__
      self.class_attribute = class_attribute
  \<close>
  Python's \<open>None\<close> for an absent function or string is \<open>None\<close> of the option type. With
  \<open>fget\<close> absent, \<open>fget.__name__\<close> is an attribute read on \<open>None\<close>, which raises
  \<open>AttributeError\<close> (reading \<open>None.__doc__\<close> on the line before does not raise): the
  constructor does not return and there is no descriptor.
\<close>

record 'v cached_property =
  p_get :: "'v callable option"
  p_set :: "'v callable option"
  p_del :: "'v callable option"
  p_doc :: "string option"
  p_name :: string
  p_module :: string
  class_attribute :: "string option"

definition truthy :: "string option \<Rightarrow> bool" where
  "truthy s = (case s of None \<Rightarrow> False | Some t \<Rightarrow> t \<noteq> [])"

definition cached_property_init ::
  "'v callable option \<Rightarrow> 'v callable option \<Rightarrow> 'v callable option \<Rightarrow> string option
    \<Rightarrow> string option \<Rightarrow> exn + 'v cached_property" where
  "cached_property_init fget fset fdel doc class_attr =
     (case fget of
        None \<Rightarrow> Inl AttributeError
      | Some f \<Rightarrow>
          Inr \<lparr>p_get = fget, p_set = fset, p_del = fdel,
               p_doc = (if truthy doc then doc else fn_doc f),
               p_name = fn_name f, p_module = fn_module f,
               class_attribute = class_attr\<rparr>)"

text \<open>
  The dictionary operations on an instance's storage: \<open>obj.__dict__[k] = v\<close>, and
  \<open>obj.__dict__.pop(k, _sentinel)\<close>, whose result \<open>None\<close> stands for the sentinel (a
  private object that is no stored value).
\<close>

definition dict_setitem :: "'v heap \<Rightarrow> 'v \<Rightarrow> string \<Rightarrow> 'v \<Rightarrow> 'v heap" where
  "dict_setitem h obj k v = h(obj := (h obj)(k \<mapsto> v))"

definition dict_discard :: "'v heap \<Rightarrow> 'v \<Rightarrow> string \<Rightarrow> 'v heap" where
  "dict_discard h obj k = h(obj := (h obj)(k := None))"

definition dict_pop :: "'v heap \<Rightarrow> 'v \<Rightarrow> string \<Rightarrow> 'v option \<times> 'v heap" where
  "dict_pop h obj k = (h obj k, dict_discard h obj k)"

text \<open>
  \<^verbatim>\<open>
  def __get__(self, obj, type=None):
      if obj is None:
          if type is not None and self.class_attribute:
              return getattr(type, self.class_attribute)
          return self
      try:
          return obj.__dict__[self.__name__]
      except KeyError:
          value = obj.__dict__[self.__name__] = self.__get(obj)
          return value
  \<close>
  The result is a value or the descriptor itself. The built-in \<open>getattr\<close> on a class is
  the interpreter's and is a parameter. Calling an absent \<open>self.__get\<close> raises
  \<open>TypeError\<close>. The value is stored after the call returns, in the storage as the call
  left it.
\<close>

datatype 'v got = Value 'v | Descriptor "'v cached_property"

fun cached_property_get ::
  "('v \<Rightarrow> string \<Rightarrow> 'v heap \<Rightarrow> (exn + 'v) \<times> 'v heap) \<Rightarrow> 'v cached_property
    \<Rightarrow> 'v option \<Rightarrow> 'v option \<Rightarrow> 'v state \<Rightarrow> (exn + 'v got) \<times> 'v state" where
  "cached_property_get getattr self None type s =
     (case (type, class_attribute self) of
        (Some t, Some attr) \<Rightarrow>
          (if attr \<noteq> [] then
             (case getattr t attr (heap s) of
                (Inl e, h) \<Rightarrow> (Inl e, s\<lparr>heap := h\<rparr>)
              | (Inr v, h) \<Rightarrow> (Inr (Value v), s\<lparr>heap := h\<rparr>))
           else (Inr (Descriptor self), s))
      | _ \<Rightarrow> (Inr (Descriptor self), s))"
| "cached_property_get getattr self (Some obj) type s =
     (case heap s obj (p_name self) of
        Some v \<Rightarrow> (Inr (Value v), s)
      | None \<Rightarrow>
          (case p_get self of
             None \<Rightarrow> (Inl TypeError, s)
           | Some f \<Rightarrow>
               (case fn_call f [obj] (heap s) of
                  (Inl e, h) \<Rightarrow> (Inl e, \<lparr>heap = h, calls = calls s @ [Compute obj]\<rparr>)
                | (Inr v, h) \<Rightarrow>
                    (Inr (Value v),
                     \<lparr>heap = dict_setitem h obj (p_name self) v,
                      calls = calls s @ [Compute obj]\<rparr>))))"

text \<open>
  \<^verbatim>\<open>
  def __set__(self, obj, value):
      if self.__set is not None:
          value = self.__set(obj, value)
      obj.__dict__[self.__name__] = value
  \<close>
\<close>

definition cached_property_set ::
  "'v cached_property \<Rightarrow> 'v \<Rightarrow> 'v \<Rightarrow> 'v state \<Rightarrow> (exn + unit) \<times> 'v state" where
  "cached_property_set self obj v s =
     (case p_set self of
        None \<Rightarrow> (Inr (), s\<lparr>heap := dict_setitem (heap s) obj (p_name self) v\<rparr>)
      | Some f \<Rightarrow>
          (case fn_call f [obj, v] (heap s) of
             (Inl e, h) \<Rightarrow> (Inl e, \<lparr>heap = h, calls = calls s @ [Prepare obj v]\<rparr>)
           | (Inr v', h) \<Rightarrow>
               (Inr (),
                \<lparr>heap = dict_setitem h obj (p_name self) v',
                 calls = calls s @ [Prepare obj v]\<rparr>)))"

text \<open>
  \<^verbatim>\<open>
  def __delete__(self, obj, _sentinel=object()):
      value = obj.__dict__.pop(self.__name__, _sentinel)
      if self.__del is not None and value is not _sentinel:
          self.__del(obj, value)
  \<close>
  What the hook returns is dropped.
\<close>

definition cached_property_delete ::
  "'v cached_property \<Rightarrow> 'v \<Rightarrow> 'v state \<Rightarrow> (exn + unit) \<times> 'v state" where
  "cached_property_delete self obj s =
     (case dict_pop (heap s) obj (p_name self) of
        (popped, h) \<Rightarrow>
          (case (p_del self, popped) of
             (Some f, Some v) \<Rightarrow>
               (case fn_call f [obj, v] h of
                  (Inl e, h') \<Rightarrow> (Inl e, \<lparr>heap = h', calls = calls s @ [Cleanup obj v]\<rparr>)
                | (Inr _, h') \<Rightarrow> (Inr (), \<lparr>heap = h', calls = calls s @ [Cleanup obj v]\<rparr>))
           | _ \<Rightarrow> (Inr (), s\<lparr>heap := h\<rparr>)))"

text \<open>
  \<^verbatim>\<open>
  def setter(self, fset):
      return self.__class__(self.__get, fset, self.__del)

  def deleter(self, fdel):
      return self.__class__(self.__get, self.__set, fdel)
  \<close>
  \<open>self.__class__\<close> is \<open>cached_property\<close>; \<open>doc\<close> and \<open>class_attribute\<close> take their
  defaults, \<open>None\<close>.
\<close>

definition setter :: "'v cached_property \<Rightarrow> 'v callable option \<Rightarrow> exn + 'v cached_property" where
  "setter self fset = cached_property_init (p_get self) fset (p_del self) None None"

definition deleter :: "'v cached_property \<Rightarrow> 'v callable option \<Rightarrow> exn + 'v cached_property" where
  "deleter self fdel = cached_property_init (p_get self) (p_set self) fdel None None"

text \<open>
  A frame condition on one call of a hook: run with these arguments in this heap, the
  hook (if there is one) leaves the entry \<open>k\<close> of the storage of \<open>obj\<close> as it found it.
\<close>

definition hook_keeps :: "'v callable option \<Rightarrow> 'v list \<Rightarrow> 'v heap \<Rightarrow> 'v \<Rightarrow> string \<Rightarrow> bool" where
  "hook_keeps hook args h obj k =
     (case hook of None \<Rightarrow> True | Some f \<Rightarrow> snd (fn_call f args h) obj k = h obj k)"

subsection \<open>An example class\<close>

text \<open>
  The \<open>connection\<close> attribute of the class docstring, over natural numbers as values:
  the compute function returns 7, the setter stores the successor of what is written,
  one delete hook returns normally and another raises. Object 1 is the instance and
  object 0 its class, which has no class-level attributes.
\<close>

definition conn_get :: "nat callable" where
  "conn_get = \<lparr>fn_name = ''connection'', fn_doc = Some ''Open the connection.'',
     fn_module = ''app'', fn_call = (\<lambda>args h. (Inr 7, h))\<rparr>"

definition conn_set :: "nat callable" where
  "conn_set = \<lparr>fn_name = ''connection'', fn_doc = None, fn_module = ''app'',
     fn_call = (\<lambda>args h. case args of [obj, v] \<Rightarrow> (Inr (Suc v), h) | _ \<Rightarrow> (Inl TypeError, h))\<rparr>"

definition conn_del :: "nat callable" where
  "conn_del = \<lparr>fn_name = ''connection'', fn_doc = None, fn_module = ''app'',
     fn_call = (\<lambda>args h. (Inr 0, h))\<rparr>"

definition conn_del_raising :: "nat callable" where
  "conn_del_raising = \<lparr>fn_name = ''connection'', fn_doc = None, fn_module = ''app'',
     fn_call = (\<lambda>args h. (Inl (Raised ''closing failed''), h))\<rparr>"

definition connection :: "nat callable option \<Rightarrow> nat callable option \<Rightarrow> nat cached_property" where
  "connection fset fdel =
     \<lparr>p_get = Some conn_get, p_set = fset, p_del = fdel,
      p_doc = Some ''Open the connection.'', p_name = ''connection'', p_module = ''app'',
      class_attribute = None\<rparr>"

definition no_getattr :: "nat \<Rightarrow> string \<Rightarrow> nat heap \<Rightarrow> (exn + nat) \<times> nat heap" where
  "no_getattr t attr h = (Inl AttributeError, h)"

definition fresh :: "nat state" where
  "fresh = \<lparr>heap = (\<lambda>_. Map.empty), calls = []\<rparr>"

definition cached :: "nat state" where
  "cached = \<lparr>heap = (\<lambda>_. Map.empty)(1 := [''connection'' \<mapsto> 7]), calls = [Compute 1]\<rparr>"

text \<open>
  States of the example: the instance after a plain write of 3, after a write of 3 through
  the setter, after a delete with the returning hook and after the read that follows
  it, after a delete with the raising hook; and a descriptor constructed with a
  documentation string and a class-level fallback of its own.
\<close>

definition written :: "nat state" where
  "written = \<lparr>heap = (\<lambda>_. Map.empty)(1 := [''connection'' \<mapsto> 3]), calls = [Compute 1]\<rparr>"

definition prepared :: "nat state" where
  "prepared = \<lparr>heap = (\<lambda>_. Map.empty)(1 := [''connection'' \<mapsto> 4]),
     calls = [Compute 1, Prepare 1 3]\<rparr>"

definition deleted :: "nat state" where
  "deleted = \<lparr>heap = (\<lambda>_. Map.empty)(1 := Map.empty), calls = [Compute 1, Cleanup 1 7]\<rparr>"

definition recomputed :: "nat state" where
  "recomputed = \<lparr>heap = (\<lambda>_. Map.empty)(1 := [''connection'' \<mapsto> 7]),
     calls = [Compute 1, Cleanup 1 7, Compute 1]\<rparr>"

definition documented :: "nat cached_property" where
  "documented =
     \<lparr>p_get = Some conn_get, p_set = None, p_del = None,
      p_doc = Some ''The shared connection.'', p_name = ''connection'', p_module = ''app'',
      class_attribute = Some ''default_connection''\<rparr>"

definition failed_delete :: "nat state" where
  "failed_delete = \<lparr>heap = (\<lambda>_. Map.empty)(1 := Map.empty), calls = [Compute 1, Cleanup 1 7]\<rparr>"

subsection \<open>The loop\<close>

lemma iter_loop_wanted: "iter_loop True xs stop = xs"
  by (induction xs) simp_all

lemma iter_loop_absent: "stop \<notin> set xs \<Longrightarrow> iter_loop False xs stop = []"
  by (induction xs) auto

lemma iter_loop_first_stop:
  "stop \<notin> set xs \<Longrightarrow> iter_loop False (xs @ stop # ys) stop = ys"
  by (induction xs) (auto simp: iter_loop_wanted)

lemma iter_mro_reversed_split:
  assumes "mro cls = after @ stop # before" and "stop \<notin> set before"
  shows "iter_mro_reversed mro cls stop = rev after"
proof -
  have "rev (mro cls) = rev before @ stop # rev after"
    using assms(1) by simp
  moreover have "stop \<notin> set (rev before)"
    using assms(2) by simp
  ultimately show ?thesis
    unfolding iter_mro_reversed_def by (simp add: iter_loop_first_stop)
qed

subsection \<open>Claims about the walker\<close>

text \<open>
  C1 (as stated): walking a class with the stop type equal to the class itself yields
  exactly that class. The code does not do that: the class is the last element visited,
  the flag is set on it, and the loop ends before anything is yielded. For the class
  \<open>C\<close> of the docstring's hierarchy the result is empty.
\<close>

theorem iter_mro_reversed_self_counterexample:
  "iter_mro_reversed abc_mro ''C'' ''C'' \<noteq> [''C'']"
  by (simp add: iter_mro_reversed_def)

text \<open>
  C1 (amended): for every class whose linearization starts with the class itself and
  does not repeat it (as every linearization Python computes does), walking the class
  with the stop type equal to the class yields the empty sequence.
\<close>

theorem iter_mro_reversed_self_empty:
  assumes "mro cls = cls # bases" and "cls \<notin> set bases"
  shows "iter_mro_reversed mro cls cls = []"
  using iter_mro_reversed_split [of mro cls "[]" cls bases] assms by simp

theorem iter_mro_reversed_self_empty_witness:
  "abc_mro ''C'' = ''C'' # [''B'', ''A'', ''object'']
   \<and> ''C'' \<notin> set [''B'', ''A'', ''object'']
   \<and> iter_mro_reversed abc_mro ''C'' ''C'' = []"
  using iter_mro_reversed_self_empty [of abc_mro "''C''" "[''B'', ''A'', ''object'']"]
  by simp

text \<open>
  C3: for a chain of classes where \<open>C\<close> derives from \<open>B\<close> alone and \<open>B\<close> from \<open>A\<close> alone
  (so that the linearization of \<open>C\<close> is \<open>C\<close> followed by that of \<open>B\<close>, and that of \<open>B\<close> is
  \<open>B\<close> followed by that of \<open>A\<close>, which starts with \<open>A\<close>, without repetition), walking \<open>C\<close>
  with stop \<open>A\<close> yields exactly \<open>[B, C]\<close>, and with stop \<open>B\<close> exactly \<open>[C]\<close>.
\<close>

theorem iter_mro_reversed_chain:
  assumes "mro C = C # mro B" and "mro B = B # mro A" and "mro A = A # upper"
    and "distinct (mro C)"
  shows "iter_mro_reversed mro C A = [B, C] \<and> iter_mro_reversed mro C B = [C]"
proof -
  have whole: "mro C = C # B # A # upper"
    using assms(1,2,3) by simp
  have "A \<notin> set upper" and "B \<notin> set (A # upper)"
    using assms(4) whole by auto
  then have "iter_mro_reversed mro C A = rev [C, B]"
    and "iter_mro_reversed mro C B = rev [C]"
    using whole
      iter_mro_reversed_split [of mro C "[C, B]" A upper]
      iter_mro_reversed_split [of mro C "[C]" B "A # upper"]
    by simp_all
  then show ?thesis by simp
qed

theorem iter_mro_reversed_chain_witness:
  "abc_mro ''C'' = ''C'' # abc_mro ''B'' \<and> abc_mro ''B'' = ''B'' # abc_mro ''A''
   \<and> abc_mro ''A'' = ''A'' # [''object''] \<and> distinct (abc_mro ''C'')
   \<and> iter_mro_reversed abc_mro ''C'' ''A'' = [''B'', ''C'']
   \<and> iter_mro_reversed abc_mro ''C'' ''B'' = [''C'']"
  using iter_mro_reversed_chain [of abc_mro "''C''" "''B''" "''A''" "[''object'']"]
  by simp

text \<open>
  C4: when the stop type does not occur in the linearization of the target class, the
  flag never becomes true and the walk yields the empty sequence.
\<close>

theorem iter_mro_reversed_stop_absent:
  assumes "stop \<notin> set (mro cls)"
  shows "iter_mro_reversed mro cls stop = []"
  using assms unfolding iter_mro_reversed_def by (simp add: iter_loop_absent)

theorem iter_mro_reversed_stop_absent_witness:
  "''D'' \<notin> set (abc_mro ''C'') \<and> iter_mro_reversed abc_mro ''C'' ''D'' = []"
  using iter_mro_reversed_stop_absent [of "''D''" abc_mro "''C''"]
  by simp

subsection \<open>Reads, writes and deletes on the storage\<close>

lemma dict_setitem_same: "dict_setitem h obj k v obj k = Some v"
  by (simp add: dict_setitem_def)

lemma dict_discard_same: "dict_discard h obj k obj k = None"
  by (simp add: dict_discard_def)

lemma dict_discard_absent: "h obj k = None \<Longrightarrow> dict_discard h obj k = h"
  by (auto simp: dict_discard_def fun_eq_iff)

lemma get_cached:
  "heap s obj (p_name self) = Some v
    \<Longrightarrow> cached_property_get getattr self (Some obj) type s = (Inr (Value v), s)"
  by simp

lemma get_computes:
  assumes "heap s obj (p_name self) = None" and "p_get self = Some f"
  shows "cached_property_get getattr self (Some obj) type s =
     (case fn_call f [obj] (heap s) of
        (Inl e, h) \<Rightarrow> (Inl e, \<lparr>heap = h, calls = calls s @ [Compute obj]\<rparr>)
      | (Inr v, h) \<Rightarrow>
          (Inr (Value v),
           \<lparr>heap = dict_setitem h obj (p_name self) v, calls = calls s @ [Compute obj]\<rparr>))"
  using assms by simp

lemma get_first_read:
  assumes "heap s obj (p_name self) = None"
    and "cached_property_get getattr self (Some obj) type s = (Inr r, s1)"
  shows "\<exists>v. r = Value v \<and> heap s1 obj (p_name self) = Some v
           \<and> calls s1 = calls s @ [Compute obj]"
  using assms
  by (auto simp: dict_setitem_same split: option.splits prod.splits sum.splits)

lemma set_stores:
  assumes "cached_property_set self obj v s = (Inr u, s1)"
  shows "\<exists>stored. heap s1 obj (p_name self) = Some stored
           \<and> (case p_set self of
                None \<Rightarrow> stored = v \<and> calls s1 = calls s
              | Some f \<Rightarrow> fst (fn_call f [obj, v] (heap s)) = Inr stored
                  \<and> calls s1 = calls s @ [Prepare obj v])"
  using assms
  by (auto simp: cached_property_set_def dict_setitem_same
      split: option.splits prod.splits sum.splits)

lemma delete_cached:
  assumes "heap s obj (p_name self) = Some v"
  shows "cached_property_delete self obj s =
     (case p_del self of
        None \<Rightarrow> (Inr (), s\<lparr>heap := dict_discard (heap s) obj (p_name self)\<rparr>)
      | Some f \<Rightarrow>
          (case fst (fn_call f [obj, v] (dict_discard (heap s) obj (p_name self))) of
             Inl e \<Rightarrow> Inl e | Inr _ \<Rightarrow> Inr (),
           \<lparr>heap = snd (fn_call f [obj, v] (dict_discard (heap s) obj (p_name self))),
            calls = calls s @ [Cleanup obj v]\<rparr>))"
  using assms
  by (auto simp: cached_property_delete_def dict_pop_def
      split: option.splits prod.splits sum.splits)

lemma delete_cached_removes:
  assumes "heap s obj (p_name self) = Some v"
    and "hook_keeps (p_del self) [obj, v] (dict_discard (heap s) obj (p_name self))
           obj (p_name self)"
  shows "heap (snd (cached_property_delete self obj s)) obj (p_name self) = None"
  using assms
  by (auto simp: delete_cached hook_keeps_def dict_discard_same split: option.splits)

subsection \<open>Claims about the cached property\<close>

text \<open>
  C2 (as stated): constructing a descriptor without a compute function succeeds, and the
  error shows only at the first read. The constructor reads \<open>fget.__name__\<close>, so with
  every argument left at its default it raises \<open>AttributeError\<close> and returns nothing.
\<close>

theorem init_without_fget_counterexample:
  "cached_property_init (None :: nat callable option) None None None None
     = Inl AttributeError"
  by (simp add: cached_property_init_def)

text \<open>
  C2 (amended): constructing a descriptor without a compute function does not succeed:
  whatever the other arguments, the constructor raises \<open>AttributeError\<close>, so the error
  is surfaced at construction time and no read takes place.
\<close>

theorem init_requires_fget:
  "cached_property_init None fset fdel doc class_attr = Inl AttributeError"
  by (simp add: cached_property_init_def)

text \<open>
  C5: on an instance that holds no value for the attribute yet, a first read that
  returns and a second read right after it call the compute function exactly once (the
  log grows by one \<open>Compute\<close> entry over the two reads), and the second read returns the
  value the first one returned, which is the value held in the instance's storage.
\<close>

theorem read_twice_computes_once:
  assumes uncached: "heap s obj (p_name self) = None"
    and first: "cached_property_get getattr self (Some obj) type s = (Inr r1, s1)"
    and second: "cached_property_get getattr self (Some obj) type s1 = (r2, s2)"
  shows "calls s2 = calls s @ [Compute obj] \<and> r2 = Inr r1
         \<and> (\<exists>v. r1 = Value v \<and> heap s2 obj (p_name self) = Some v)"
proof -
  obtain v where v: "r1 = Value v" "heap s1 obj (p_name self) = Some v"
      "calls s1 = calls s @ [Compute obj]"
    using get_first_read [OF uncached first] by blast
  have "cached_property_get getattr self (Some obj) type s1 = (Inr (Value v), s1)"
    using v(2) by (rule get_cached)
  with second have "r2 = Inr (Value v)" and "s2 = s1"
    by simp_all
  with v show ?thesis by simp
qed

theorem read_twice_computes_once_witness:
  "heap fresh 1 (p_name (connection None None)) = None
   \<and> cached_property_get no_getattr (connection None None) (Some 1) (Some 0) fresh
       = (Inr (Value 7), cached)
   \<and> cached_property_get no_getattr (connection None None) (Some 1) (Some 0) cached
       = (Inr (Value 7), cached)
   \<and> calls cached = calls fresh @ [Compute 1]
   \<and> heap cached 1 (p_name (connection None None)) = Some 7"
proof -
  have a: "heap fresh 1 (p_name (connection None None)) = None"
    by (simp add: fresh_def connection_def)
  have b: "cached_property_get no_getattr (connection None None) (Some 1) (Some 0) fresh
       = (Inr (Value 7), cached)"
    by (simp add: fresh_def cached_def connection_def conn_get_def dict_setitem_def)
  have c: "cached_property_get no_getattr (connection None None) (Some 1) (Some 0) cached
       = (Inr (Value 7), cached)"
    by (simp add: cached_def connection_def)
  show ?thesis
    using read_twice_computes_once [OF a b c] a b c by simp
qed

text \<open>
  C8: on an instance that holds no value for the attribute, a delete does not call the
  delete hook, whether one is configured or not: it returns normally and leaves the
  state, and with it the log of calls, as it was.
\<close>

theorem delete_uncached_skips_hook:
  assumes "heap s obj (p_name self) = None"
  shows "cached_property_delete self obj s = (Inr (), s)
         \<and> calls (snd (cached_property_delete self obj s)) = calls s"
  using assms
  by (simp add: cached_property_delete_def dict_pop_def dict_discard_absent
      split: option.splits)

theorem delete_uncached_skips_hook_witness:
  "heap fresh 1 (p_name (connection None (Some conn_del_raising))) = None
   \<and> cached_property_delete (connection None (Some conn_del_raising)) 1 fresh
       = (Inr (), fresh)
   \<and> calls (snd (cached_property_delete (connection None (Some conn_del_raising)) 1 fresh))
       = calls fresh"
proof -
  have a: "heap fresh 1 (p_name (connection None (Some conn_del_raising))) = None"
    by (simp add: fresh_def connection_def)
  show ?thesis
    using delete_uncached_skips_hook [OF a] a by simp
qed

text \<open>
  C6: a write that returns, followed by a read, gives back exactly what the write
  stored: the written value when no setter is configured, and the setter's return
  value when one is. The read leaves the state as it is, so it does not call the
  compute function, and what an earlier read computed plays no part.
\<close>

theorem write_then_read:
  assumes "cached_property_set self obj v s = (Inr u, s1)"
  shows "\<exists>stored.
           (case p_set self of
              None \<Rightarrow> stored = v
            | Some f \<Rightarrow> fst (fn_call f [obj, v] (heap s)) = Inr stored)
           \<and> cached_property_get getattr self (Some obj) type s1 = (Inr (Value stored), s1)
           \<and> calls (snd (cached_property_get getattr self (Some obj) type s1)) = calls s1"
proof -
  obtain stored where st: "heap s1 obj (p_name self) = Some stored"
    and how: "case p_set self of
                None \<Rightarrow> stored = v \<and> calls s1 = calls s
              | Some f \<Rightarrow> fst (fn_call f [obj, v] (heap s)) = Inr stored
                  \<and> calls s1 = calls s @ [Prepare obj v]"
    using set_stores [OF assms] by blast
  have "cached_property_get getattr self (Some obj) type s1 = (Inr (Value stored), s1)"
    using st by (rule get_cached)
  moreover have "case p_set self of
              None \<Rightarrow> stored = v
            | Some f \<Rightarrow> fst (fn_call f [obj, v] (heap s)) = Inr stored"
    using how by (simp split: option.splits)
  ultimately show ?thesis by auto
qed

theorem write_then_read_witness:
  "cached_property_set (connection None None) 1 3 cached = (Inr (), written)
   \<and> cached_property_get no_getattr (connection None None) (Some 1) (Some 0) written
       = (Inr (Value 3), written)
   \<and> cached_property_set (connection (Some conn_set) None) 1 3 cached = (Inr (), prepared)
   \<and> fst (fn_call conn_set [1, 3] (heap cached)) = Inr 4
   \<and> cached_property_get no_getattr (connection (Some conn_set) None) (Some 1) (Some 0) prepared
       = (Inr (Value 4), prepared)"
proof -
  have a: "cached_property_set (connection None None) 1 3 cached = (Inr (), written)"
    by (simp add: cached_property_set_def connection_def cached_def written_def
        dict_setitem_def)
  have b: "cached_property_set (connection (Some conn_set) None) 1 3 cached
       = (Inr (), prepared)"
    by (simp add: cached_property_set_def connection_def cached_def prepared_def
        conn_set_def dict_setitem_def)
  show ?thesis
    using write_then_read [OF a, of no_getattr "Some 0"]
      write_then_read [OF b, of no_getattr "Some 0"] a b
    by (simp add: connection_def conn_set_def)
qed

text \<open>
  C7: on an instance that holds a value for the attribute, a delete (whose hook, if one
  is configured, does not itself write the attribute back into the instance's storage)
  leaves the storage without a value for it, whether the hook returns or raises; the
  next read then calls the compute function again, and its outcome is the outcome of
  that call, not the deleted value.
\<close>

theorem delete_then_read_recomputes:
  assumes cached: "heap s obj (p_name self) = Some v"
    and compute: "p_get self = Some g"
    and frame: "hook_keeps (p_del self) [obj, v] (dict_discard (heap s) obj (p_name self))
           obj (p_name self)"
    and del: "cached_property_delete self obj s = (r1, s1)"
    and read: "cached_property_get getattr self (Some obj) type s1 = (r2, s2)"
  shows "heap s1 obj (p_name self) = None
         \<and> calls s2 = calls s1 @ [Compute obj]
         \<and> r2 = map_sum id Value (fst (fn_call g [obj] (heap s1)))"
proof -
  have gone: "heap s1 obj (p_name self) = None"
    using delete_cached_removes [OF cached frame] del by simp
  have "(r2, s2) =
     (case fn_call g [obj] (heap s1) of
        (Inl e, h) \<Rightarrow> (Inl e, \<lparr>heap = h, calls = calls s1 @ [Compute obj]\<rparr>)
      | (Inr v, h) \<Rightarrow>
          (Inr (Value v),
           \<lparr>heap = dict_setitem h obj (p_name self) v, calls = calls s1 @ [Compute obj]\<rparr>))"
    using get_computes [OF gone compute, of getattr type] read by simp
  then have "calls s2 = calls s1 @ [Compute obj]"
    and "r2 = map_sum id Value (fst (fn_call g [obj] (heap s1)))"
    by (auto split: prod.splits sum.splits)
  with gone show ?thesis by simp
qed

theorem delete_then_read_recomputes_witness:
  "heap cached 1 (p_name (connection None (Some conn_del))) = Some 7
   \<and> p_get (connection None (Some conn_del)) = Some conn_get
   \<and> hook_keeps (p_del (connection None (Some conn_del))) [1, 7]
        (dict_discard (heap cached) 1 (p_name (connection None (Some conn_del))))
        1 (p_name (connection None (Some conn_del)))
   \<and> cached_property_delete (connection None (Some conn_del)) 1 cached = (Inr (), deleted)
   \<and> cached_property_get no_getattr (connection None (Some conn_del)) (Some 1) (Some 0) deleted
       = (Inr (Value 7), recomputed)
   \<and> heap deleted 1 (p_name (connection None (Some conn_del))) = None
   \<and> calls recomputed = calls deleted @ [Compute 1]"
proof -
  have a: "heap cached 1 (p_name (connection None (Some conn_del))) = Some 7"
    by (simp add: cached_def connection_def)
  have b: "p_get (connection None (Some conn_del)) = Some conn_get"
    by (simp add: connection_def)
  have c: "hook_keeps (p_del (connection None (Some conn_del))) [1, 7]
        (dict_discard (heap cached) 1 (p_name (connection None (Some conn_del))))
        1 (p_name (connection None (Some conn_del)))"
    by (simp add: hook_keeps_def connection_def conn_del_def)
  have d: "cached_property_delete (connection None (Some conn_del)) 1 cached
       = (Inr (), deleted)"
    by (simp add: cached_property_delete_def dict_pop_def dict_discard_def connection_def
        conn_del_def cached_def deleted_def)
  have e: "cached_property_get no_getattr (connection None (Some conn_del)) (Some 1) (Some 0)
       deleted = (Inr (Value 7), recomputed)"
    by (simp add: connection_def conn_get_def deleted_def recomputed_def dict_setitem_def)
  show ?thesis
    using delete_then_read_recomputes [OF a b c d e] a b c d e by simp
qed

text \<open>
  C9: for a descriptor constructed with a class-level fallback attribute name, the
  descriptors returned by \<open>setter\<close> and \<open>deleter\<close> are the original with the hook
  replaced, the class-level fallback dropped (\<open>class_attribute\<close> is \<open>None\<close>) and the
  documentation string taken from the compute function, whatever \<open>doc\<close> the original was
  given.
\<close>

theorem rebinding_drops_class_attribute:
  assumes "cached_property_init fget fset fdel doc (Some attr) = Inr self"
  shows "\<exists>g. fget = Some g \<and> class_attribute self = Some attr
           \<and> setter self fset' =
               Inr (self\<lparr>p_set := fset', p_doc := fn_doc g, class_attribute := None\<rparr>)
           \<and> deleter self fdel' =
               Inr (self\<lparr>p_del := fdel', p_doc := fn_doc g, class_attribute := None\<rparr>)"
  using assms
  by (auto simp: cached_property_init_def setter_def deleter_def truthy_def
      split: option.splits)

theorem rebinding_drops_class_attribute_witness:
  "cached_property_init (Some conn_get) None None (Some ''The shared connection.'')
       (Some ''default_connection'') = Inr documented
   \<and> class_attribute documented = Some ''default_connection''
   \<and> setter documented (Some conn_set) =
       Inr (documented\<lparr>p_set := Some conn_set, p_doc := Some ''Open the connection.'',
              class_attribute := None\<rparr>)
   \<and> deleter documented (Some conn_del) =
       Inr (documented\<lparr>p_del := Some conn_del, p_doc := Some ''Open the connection.'',
              class_attribute := None\<rparr>)"
proof -
  have a: "cached_property_init (Some conn_get) None None (Some ''The shared connection.'')
       (Some ''default_connection'') = Inr documented"
    by (simp add: cached_property_init_def documented_def truthy_def conn_get_def)
  have b: "fn_doc conn_get = Some ''Open the connection.''"
    by (simp add: conn_get_def)
  show ?thesis
    using rebinding_drops_class_attribute [OF a, of "Some conn_set" "Some conn_del"] a b
    by simp
qed

text \<open>
  C10: on an instance that holds a value for the attribute, with a delete hook that
  raises, the delete takes the value out of the instance's storage first and runs the
  hook on the storage without it; the hook's exception is what the delete raises, and
  afterwards (the hook not having written the attribute back) the instance holds no
  value for the attribute.
\<close>

theorem delete_not_atomic_on_hook_failure:
  assumes cached: "heap s obj (p_name self) = Some v"
    and hook: "p_del self = Some f"
    and raises: "fn_call f [obj, v] (dict_discard (heap s) obj (p_name self)) = (Inl e, h)"
    and frame: "hook_keeps (p_del self) [obj, v] (dict_discard (heap s) obj (p_name self))
           obj (p_name self)"
  shows "dict_discard (heap s) obj (p_name self) obj (p_name self) = None
         \<and> cached_property_delete self obj s
             = (Inl e, \<lparr>heap = h, calls = calls s @ [Cleanup obj v]\<rparr>)
         \<and> h obj (p_name self) = None"
proof -
  have "cached_property_delete self obj s
      = (Inl e, \<lparr>heap = h, calls = calls s @ [Cleanup obj v]\<rparr>)"
    using hook raises by (simp add: delete_cached [OF cached])
  moreover have "h obj (p_name self) = None"
    using frame hook raises by (simp add: hook_keeps_def dict_discard_same)
  ultimately show ?thesis
    by (simp add: dict_discard_same)
qed

theorem delete_not_atomic_on_hook_failure_witness:
  "heap cached 1 (p_name (connection None (Some conn_del_raising))) = Some 7
   \<and> p_del (connection None (Some conn_del_raising)) = Some conn_del_raising
   \<and> fn_call conn_del_raising [1, 7]
        (dict_discard (heap cached) 1 (p_name (connection None (Some conn_del_raising))))
       = (Inl (Raised ''closing failed''), heap failed_delete)
   \<and> cached_property_delete (connection None (Some conn_del_raising)) 1 cached
       = (Inl (Raised ''closing failed''), failed_delete)
   \<and> heap failed_delete 1 (p_name (connection None (Some conn_del_raising))) = None"
proof -
  have a: "heap cached 1 (p_name (connection None (Some conn_del_raising))) = Some 7"
    by (simp add: cached_def connection_def)
  have b: "p_del (connection None (Some conn_del_raising)) = Some conn_del_raising"
    by (simp add: connection_def)
  have c: "fn_call conn_del_raising [1, 7]
        (dict_discard (heap cached) 1 (p_name (connection None (Some conn_del_raising))))
       = (Inl (Raised ''closing failed''), heap failed_delete)"
    by (simp add: conn_del_raising_def dict_discard_def cached_def connection_def
        failed_delete_def)
  have d: "hook_keeps (p_del (connection None (Some conn_del_raising))) [1, 7]
        (dict_discard (heap cached) 1 (p_name (connection None (Some conn_del_raising))))
        1 (p_name (connection None (Some conn_del_raising)))"
    by (simp add: hook_keeps_def connection_def conn_del_raising_def)
  have e: "\<lparr>heap = heap failed_delete, calls = calls cached @ [Cleanup 1 7]\<rparr> = failed_delete"
    by (simp add: failed_delete_def cached_def)
  show ?thesis
    using delete_not_atomic_on_hook_failure [OF a b c d] a b c e by simp
qed

end
